theory Spec2Isabelle
  imports Main "HOL-Library.Word"
begin

section \<open>Strings of the host languages\<close>

text \<open>
  A \<^typ>\<open>string\<close> stands for a JavaScript or C\# string all of whose code units are below
  256, one \<^typ>\<open>char\<close> per code unit: paths, settings and arguments are such strings.
  The pictographs of the user-facing messages are not represented: messages are
  constructors of a datatype, their wording is given in the comments. The text decoded
  from a child process is given its own type below.
\<close>

definition is_js_space :: "char \<Rightarrow> bool" where
  \<comment> \<open>the WhiteSpace and LineTerminator code units below 256 that \<open>String.prototype.trim\<close> removes\<close>
  "is_js_space c =
     (c \<in> set [CHR 0x09, CHR 0x0A, CHR 0x0B, CHR 0x0C, CHR 0x0D, CHR 0x20, CHR 0xA0])"

definition trim :: "string \<Rightarrow> string" where
  \<comment> \<open>\<open>s.trim()\<close>\<close>
  "trim s = rev (dropWhile is_js_space (rev (dropWhile is_js_space s)))"

definition digit_char :: "nat \<Rightarrow> char" where
  "digit_char d = ''0123456789'' ! (d mod 10)"

fun string_of_nat :: "nat \<Rightarrow> string" where
  "string_of_nat n =
     (if n < 10 then [digit_char n]
      else string_of_nat (n div 10) @ [digit_char (n mod 10)])"

definition String_number :: "int \<Rightarrow> string" where
  \<comment> \<open>\<open>String(n)\<close> for a number that is an integer below \<open>10^21\<close> in magnitude\<close>
  "String_number i = (if i < 0 then ''-'' @ string_of_nat (nat (- i)) else string_of_nat (nat i))"

fun startsWith :: "string \<Rightarrow> string \<Rightarrow> bool" where
  \<comment> \<open>\<open>s.startsWith(p)\<close>, written \<open>startsWith p s\<close>\<close>
  "startsWith [] s = True"
| "startsWith (p # ps) [] = False"
| "startsWith (p # ps) (c # cs) = (p = c \<and> startsWith ps cs)"

fun indexOf :: "string \<Rightarrow> string \<Rightarrow> nat option" where
  \<comment> \<open>position of the first occurrence of the pattern \<open>p\<close> in \<open>s\<close>\<close>
  "indexOf p [] = (if p = [] then Some 0 else None)"
| "indexOf p (c # cs) =
     (if startsWith p (c # cs) then Some 0
      else map_option Suc (indexOf p cs))"

fun getSubstitution :: "string \<Rightarrow> string \<Rightarrow> string \<Rightarrow> string \<Rightarrow> string" where
  \<comment> \<open>the replacement text of \<open>String.prototype.replace\<close> for a string pattern (no capture
      groups): \<open>$$\<close> is a dollar, \<open>$&\<close> the match, \<open>$`\<close> the text before it, \<open>$'\<close> the text
      after it; every other character stands for itself\<close>
  "getSubstitution matched preceding following [] = []"
| "getSubstitution matched preceding following [c] = [c]"
| "getSubstitution matched preceding following (c # d # r) =
     (if c = CHR ''$'' \<and> d = CHR ''$'' then CHR ''$'' # getSubstitution matched preceding following r
      else if c = CHR ''$'' \<and> d = CHR ''&'' then matched @ getSubstitution matched preceding following r
      else if c = CHR ''$'' \<and> d = CHR 0x60 then preceding @ getSubstitution matched preceding following r
      else if c = CHR ''$'' \<and> d = CHR 0x27 then following @ getSubstitution matched preceding following r
      else c # getSubstitution matched preceding following (d # r))"

definition replace :: "string \<Rightarrow> string \<Rightarrow> string \<Rightarrow> string" where
  \<comment> \<open>\<open>s.replace(pat, repl)\<close> with a string pattern: the first occurrence only\<close>
  "replace s pat repl =
     (case indexOf pat s of
        None \<Rightarrow> s
      | Some i \<Rightarrow>
          (let preceding = take i s; following = drop (i + length pat) s
           in preceding @ getSubstitution pat preceding following repl @ following))"

subsection \<open>Bytes of a process, and the text decoded from them\<close>

text \<open>
  What a child process writes arrives as buffers of bytes, and decoding them can give
  code units of any value. Such text is a list of 16-bit code units, as a JavaScript
  string is.
\<close>

type_synonym byte = "8 word"

type_synonym utf16 = "16 word list"



definition is_js_white :: "16 word \<Rightarrow> bool" where
  \<comment> \<open>the WhiteSpace and LineTerminator code units, all of which \<open>String.prototype.trim\<close>
      removes\<close>
  "is_js_white u =
     (u \<in> set [0x09, 0x0A, 0x0B, 0x0C, 0x0D, 0x20, 0xA0, 0x1680, 0x2028, 0x2029, 0x202F,
                0x205F, 0x3000, 0xFEFF]
      \<or> (0x2000 \<le> u \<and> u \<le> 0x200A))"

definition trim_text :: "utf16 \<Rightarrow> utf16" where
  \<comment> \<open>\<open>s.trim()\<close> on decoded text\<close>
  "trim_text s = rev (dropWhile is_js_white (rev (dropWhile is_js_white s)))"

definition code_units :: "nat \<Rightarrow> utf16" where
  \<comment> \<open>a code point as UTF-16: itself below \<open>0x10000\<close>, a surrogate pair from there on\<close>
  "code_units cp =
     (if cp < 0x10000 then [of_nat cp]
      else [of_nat (0xD800 + (cp - 0x10000) div 0x400),
            of_nat (0xDC00 + (cp - 0x10000) mod 0x400)])"

fun utf8_decode :: "nat \<Rightarrow> nat \<Rightarrow> nat \<Rightarrow> nat \<Rightarrow> byte list \<Rightarrow> utf16" where
  \<comment> \<open>The UTF-8 decoder of the Encoding Standard, which replaces each maximal ill-formed
      part by U+FFFD. \<open>needed\<close>: continuation bytes still to come; \<open>cp\<close>: the code point
      so far; \<open>lower\<close>, \<open>upper\<close>: the range the next continuation byte must lie in. A byte
      that cannot continue the sequence ends it with U+FFFD and is then read as the start
      of a new one; input that ends inside a sequence ends with U+FFFD.\<close>
  "utf8_decode needed cp lower upper [] = (if needed \<noteq> 0 then [0xFFFD] else [])"
| "utf8_decode needed cp lower upper (b # bs) =
     (let v = unat b in
      if needed = 0 \<or> \<not> (lower \<le> v \<and> v \<le> upper) then
        (if needed \<noteq> 0 then [0xFFFD] else []) @
        (if v \<le> 0x7F then of_nat v # utf8_decode 0 0 0x80 0xBF bs
         else if 0xC2 \<le> v \<and> v \<le> 0xDF then utf8_decode 1 (v mod 0x20) 0x80 0xBF bs
         else if 0xE0 \<le> v \<and> v \<le> 0xEF then
           utf8_decode 2 (v mod 0x10)
             (if v = 0xE0 then 0xA0 else 0x80) (if v = 0xED then 0x9F else 0xBF) bs
         else if 0xF0 \<le> v \<and> v \<le> 0xF4 then
           utf8_decode 3 (v mod 8)
             (if v = 0xF0 then 0x90 else 0x80) (if v = 0xF4 then 0x8F else 0xBF) bs
         else 0xFFFD # utf8_decode 0 0 0x80 0xBF bs)
      else if needed = 1 then code_units (cp * 64 + v mod 64) @ utf8_decode 0 0 0x80 0xBF bs
      else utf8_decode (needed - 1) (cp * 64 + v mod 64) 0x80 0xBF bs)"

definition utf8_toString :: "byte list \<Rightarrow> utf16" where
  \<comment> \<open>\<open>buffer.toString()\<close>: the whole buffer decoded as UTF-8, from the initial state\<close>
  "utf8_toString d = utf8_decode 0 0 0x80 0xBF d"

section \<open>The VS Code extension (\<open>vscode-ext/src/extension.ts\<close>)\<close>

subsection \<open>The host: settings, environment, file system, Node's \<open>path\<close> module\<close>

record settings =
  \<comment> \<open>\<open>workspace.getConfiguration('tgc')\<close>; \<open>None\<close> is a value \<open>get\<close> returns as undefined\<close>
  headerFormat :: string
  separator :: string
  maxFileSizeKB :: int
  skipBinary :: bool
  onTempOpen :: "string option"
  coreBinPath :: "string option"

record host =
  platform :: string                    \<comment> \<open>\<open>process.platform\<close>\<close>
  arch :: string                        \<comment> \<open>\<open>process.arch\<close>\<close>
  homedir :: string                     \<comment> \<open>\<open>os.homedir()\<close>\<close>
  TGC_CORE_BIN :: "string option"       \<comment> \<open>\<open>process.env.TGC_CORE_BIN\<close>\<close>
  workspaceFolder :: "string option"    \<comment> \<open>\<open>workspace.workspaceFolders?.[0]?.uri.fsPath\<close>\<close>
  extensionPath :: string               \<comment> \<open>\<open>context.extensionPath\<close>\<close>
  existsSync :: "string \<Rightarrow> bool"         \<comment> \<open>\<open>fs.existsSync\<close>\<close>
  path_join :: "string list \<Rightarrow> string"   \<comment> \<open>\<open>path.join\<close> of the platform\<close>
  path_resolve :: "string list \<Rightarrow> string"  \<comment> \<open>\<open>path.resolve\<close> of the platform\<close>
  path_basename :: "string \<Rightarrow> string"    \<comment> \<open>\<open>path.basename\<close> of the platform\<close>
  spawn_throws :: "string \<Rightarrow> string list \<Rightarrow> string option"
    \<comment> \<open>the message of the exception \<open>spawn(binaryPath, args, ...)\<close> throws, if it throws
        (an argument the platform refuses, say); a missing executable does not throw, it
        makes the child emit \<open>error\<close>\<close>
  Buffer_toString :: "byte list \<Rightarrow> utf16"
    \<comment> \<open>\<open>d.toString()\<close> of a \<open>Buffer\<close>: its bytes decoded as UTF-8, each call on its own\<close>
  copyFileToClipboard :: "utf16 \<Rightarrow> bool"
    \<comment> \<open>what \<open>copyFileToClipboard(filePath)\<close> resolves to; the helper runs xclip, osascript or
        powershell and is not modelled further\<close>
  cfg :: settings

subsection \<open>Node's POSIX \<open>path\<close> functions, for hosts that are not Windows\<close>

definition slash :: char where
  "slash = CHR ''/''"

fun split_slash :: "string \<Rightarrow> string list" where
  \<comment> \<open>the segments of a path between slashes\<close>
  "split_slash [] = [[]]"
| "split_slash (c # cs) =
     (if c = slash then [] # split_slash cs
      else (case split_slash cs of
              [] \<Rightarrow> [[c]]
            | seg # segs \<Rightarrow> (c # seg) # segs))"

fun normalize_segments :: "bool \<Rightarrow> string list \<Rightarrow> string list \<Rightarrow> string list" where
  \<comment> \<open>\<open>normalizeString\<close>: the kept segments are held in reverse; an empty segment and \<open>.\<close>
      are dropped, \<open>..\<close> removes the last kept segment unless that is \<open>..\<close> itself\<close>
  "normalize_segments allowAboveRoot acc [] = rev acc"
| "normalize_segments allowAboveRoot acc (seg # segs) =
     (if seg = [] \<or> seg = ''.'' then normalize_segments allowAboveRoot acc segs
      else if seg = ''..'' then
        (case acc of
           [] \<Rightarrow> normalize_segments allowAboveRoot (if allowAboveRoot then [''..''] else []) segs
         | a # as \<Rightarrow>
             if a = ''..'' then normalize_segments allowAboveRoot (if allowAboveRoot then ''..'' # acc else acc) segs
             else normalize_segments allowAboveRoot as segs)
      else normalize_segments allowAboveRoot (seg # acc) segs)"

fun join_slash :: "string list \<Rightarrow> string" where
  "join_slash [] = []"
| "join_slash [s] = s"
| "join_slash (s # t # ss) = s @ [slash] @ join_slash (t # ss)"

definition normalizeString :: "string \<Rightarrow> bool \<Rightarrow> string" where
  "normalizeString p allowAboveRoot = join_slash (normalize_segments allowAboveRoot [] (split_slash p))"

definition posix_normalize :: "string \<Rightarrow> string" where
  "posix_normalize p =
     (if p = [] then ''.''
      else
        (let isAbsolute = (hd p = slash);
             trailingSeparator = (last p = slash);
             q = normalizeString p (\<not> isAbsolute)
         in if q = [] then (if isAbsolute then ''/'' else if trailingSeparator then ''./'' else ''.'')
            else (if isAbsolute then ''/'' else []) @ q @ (if trailingSeparator then ''/'' else [])))"

definition posix_join :: "string list \<Rightarrow> string" where
  "posix_join args =
     (case filter (\<lambda>a. a \<noteq> []) args of
        [] \<Rightarrow> ''.''
      | a # as \<Rightarrow> posix_normalize (join_slash (a # as)))"

fun resolve_loop :: "string list \<Rightarrow> string \<Rightarrow> string \<times> bool" where
  \<comment> \<open>\<open>path.resolve\<close> reads its arguments from the right (given here reversed, the working
      directory last) until the path built so far is absolute\<close>
  "resolve_loop [] resolvedPath = (resolvedPath, False)"
| "resolve_loop (p # ps) resolvedPath =
     (if p = [] then resolve_loop ps resolvedPath
      else if hd p = slash then (p @ [slash] @ resolvedPath, True)
      else resolve_loop ps (p @ [slash] @ resolvedPath))"

definition posix_resolve :: "string \<Rightarrow> string list \<Rightarrow> string" where
  \<comment> \<open>\<open>cwd\<close> is \<open>process.cwd()\<close>\<close>
  "posix_resolve cwd args =
     (case resolve_loop (rev args @ [cwd]) [] of
        (resolvedPath, resolvedAbsolute) \<Rightarrow>
          (let q = normalizeString resolvedPath (\<not> resolvedAbsolute)
           in if resolvedAbsolute then ''/'' @ q
              else if q \<noteq> [] then q else ''.''))"

definition posix_basename :: "string \<Rightarrow> string" where
  \<comment> \<open>trailing slashes are dropped, then the text after the last slash is returned\<close>
  "posix_basename p =
     rev (takeWhile (\<lambda>c. c \<noteq> slash) (dropWhile (\<lambda>c. c = slash) (rev p)))"

subsection \<open>Locating the engine executable\<close>

definition pathExists :: "host \<Rightarrow> string option \<Rightarrow> bool" where
  \<comment> \<open>\<open>!!p && fs.existsSync(p)\<close>: null, undefined and the empty string are falsy\<close>
  "pathExists h p = (case p of None \<Rightarrow> False | Some q \<Rightarrow> q \<noteq> [] \<and> existsSync h q)"

definition expand :: "host \<Rightarrow> string \<Rightarrow> string" where
  "expand h p =
     (if startsWith ''~'' p then path_join h [homedir h, tl p]
      else replace p ''${workspaceFolder}''
             (case workspaceFolder h of None \<Rightarrow> [] | Some wfolder \<Rightarrow> wfolder))"

definition repoRootFromExtension :: "host \<Rightarrow> string" where
  "repoRootFromExtension h = path_resolve h [extensionPath h, ''..'']"

definition tryDebugBinFromRepo :: "host \<Rightarrow> string \<Rightarrow> string option" where
  "tryDebugBinFromRepo h exe =
     (let repoRoot = repoRootFromExtension h;
          p = path_join h [repoRoot, ''target'', ''debug'', exe]
      in if pathExists h (Some p) then Some p else None)"

definition tryDebugBinFromWorkspace :: "host \<Rightarrow> string \<Rightarrow> string option" where
  "tryDebugBinFromWorkspace h exe =
     (case workspaceFolder h of
        None \<Rightarrow> None
      | Some wfolder \<Rightarrow>
          if wfolder = [] then None
          else (let p = path_join h [wfolder, ''target'', ''debug'', exe]
                in if pathExists h (Some p) then Some p else None))"

definition asAbsolutePath :: "host \<Rightarrow> string \<Rightarrow> string" where
  \<comment> \<open>\<open>context.asAbsolutePath(rel)\<close>: the path joined to the extension's directory\<close>
  "asAbsolutePath h rel = path_join h [extensionPath h, rel]"

definition tryPackagedBin :: "host \<Rightarrow> string \<Rightarrow> string option" where
  "tryPackagedBin h exe =
     (let dir = platform h @ ''-'' @ arch h;
          p = asAbsolutePath h (path_join h [''bin'', dir, exe])
      in if pathExists h (Some p) then Some p else None)"

definition whichOnPath :: "string \<Rightarrow> string option" where
  "whichOnPath exe = Some exe"

definition exe_name :: "host \<Rightarrow> string" where
  \<comment> \<open>the constant \<open>exe\<close> of \<open>pickBinary\<close>\<close>
  "exe_name h =
     (if platform h = ''win32'' then ''the-great-combinator.exe'' else ''the-great-combinator'')"

definition or_null :: "string \<Rightarrow> string option" where
  \<comment> \<open>\<open>s || null\<close> for a string\<close>
  "or_null s = (if s = [] then None else Some s)"

definition filter_Boolean :: "string option list \<Rightarrow> string list" where
  \<comment> \<open>\<open>.filter(Boolean)\<close>: null and the empty string go\<close>
  "filter_Boolean cs = concat (map (\<lambda>c. case c of None \<Rightarrow> [] | Some s \<Rightarrow> if s = [] then [] else [s]) cs)"

definition cfgExpanded :: "host \<Rightarrow> string" where
  "cfgExpanded h =
     (let cfgPath = trim (case coreBinPath (cfg h) of None \<Rightarrow> [] | Some s \<Rightarrow> s)
      in if cfgPath \<noteq> [] then expand h cfgPath else [])"

definition strategies :: "host \<Rightarrow> string option list" where
  \<comment> \<open>the six entries of the array \<open>candidates\<close> before \<open>.filter(Boolean)\<close>, in its order\<close>
  "strategies h =
     [ or_null (cfgExpanded h),
       (case TGC_CORE_BIN h of None \<Rightarrow> None | Some e \<Rightarrow> or_null e),
       tryDebugBinFromRepo h (exe_name h),
       tryDebugBinFromWorkspace h (exe_name h),
       tryPackagedBin h (exe_name h),
       whichOnPath (exe_name h) ]"

definition candidates :: "host \<Rightarrow> string list" where
  "candidates h = filter_Boolean (strategies h)"

fun pick_loop :: "host \<Rightarrow> string list \<Rightarrow> string option" where
  \<comment> \<open>the \<open>for\<close> loop of \<open>pickBinary\<close>; \<open>None\<close> when it ends without returning\<close>
  "pick_loop h [] = None"
| "pick_loop h (c # cs) =
     (if path_basename h c = c then Some c
      else if pathExists h (Some c) then Some c
      else pick_loop h cs)"

definition pickBinary :: "host \<Rightarrow> string" where
  "pickBinary h =
     (case pick_loop h (candidates h) of
        Some c \<Rightarrow> c
      | None \<Rightarrow> exe_name h)"

subsection \<open>The command \<open>run\<close>\<close>

datatype mode = Clipboard | Temp

fun mode_str :: "mode \<Rightarrow> string" where
  \<comment> \<open>the string literals \<open>'clipboard'\<close> and \<open>'temp'\<close> of the type of \<open>mode\<close>\<close>
  "mode_str Clipboard = ''clipboard''"
| "mode_str Temp = ''temp''"

datatype Uri = Uri (fsPath: string)

record payload =
  \<comment> \<open>the object given to \<open>JSON.stringify\<close>; a \<open>workspace_root\<close> that is undefined (\<open>None\<close>)
      is left out of the text\<close>
  paths :: "string list"
  workspace_root :: "string option"

datatype message =
    NoFilesSelected                       \<comment> \<open>No files selected! Right-click on files/folders in Explorer first.\<close>
  | FailedToStartCLI string               \<comment> \<open>Failed to start CLI: (error.message)\<close>
  | CLIFailed "int option" utf16 utf16    \<comment> \<open>CLI failed (code: (code)), Stdout: (out), Stderr: (err)\<close>
  | CombinedToClipboard nat               \<comment> \<open>Combined (picks.length) files to clipboard!\<close>
  | TempPathCopied                        \<comment> \<open>Temp file created and path copied to clipboard!\<close>
  | TempCopiedAsAttachment                \<comment> \<open>Temp file copied as attachment! Use Ctrl+V to paste.\<close>
  | CopyAsFileFailed                      \<comment> \<open>Failed to copy file as attachment. Path copied instead.\<close>
  | TempFileCreated utf16                 \<comment> \<open>Temp file created: (result)\<close>
  | CreatedTempFile utf16                 \<comment> \<open>Created temp file: (result)\<close>
  | ExtensionError string                 \<comment> \<open>Extension error: (error.message)\<close>
  | OpenWorkspaceFirst                    \<comment> \<open>Open workspace first!\<close>
  | CLIDebugSuccess utf16                 \<comment> \<open>CLI Debug Success! Output: (out.substring(0, 100))...\<close>
  | CLIDebugFailed "int option" utf16     \<comment> \<open>CLI Debug Failed (code: (code)): (err || 'No error output')\<close>
  | DebugRunFailed string                 \<comment> \<open>Debug run failed: (e.message)\<close>

datatype effect =
    ShowWarningMessage message
  | ShowErrorMessage message
  | ShowInformationMessage message
  | Spawn string "string list"     \<comment> \<open>\<open>spawn(binaryPath, args, ...)\<close>\<close>
  | SpawnIn string "string list" string
      \<comment> \<open>\<open>spawn(debugBinPath, args, {cwd: workspace_root, ...})\<close>\<close>
  | StdinWrite payload             \<comment> \<open>\<open>child.stdin.write(JSON.stringify(payload))\<close>\<close>
  | StdinEnd
  | ClipboardWriteText utf16       \<comment> \<open>\<open>env.clipboard.writeText\<close>\<close>
  | ShowTextDocument utf16
  | RevealFileInOS utf16
  | CopyFileToClipboard utf16

datatype child_event =
    \<comment> \<open>what the spawned process emits; a \<open>data\<close> event carries a \<open>Buffer\<close> (no encoding is
        set on the streams), wherever the stream happened to be cut; the code of \<open>close\<close>
        is null (\<open>None\<close>) when a signal ended the process\<close>
    ErrorEvent string
  | StdoutData "byte list"
  | StderrData "byte list"
  | CloseEvent "int option"

definition on_close :: "mode \<Rightarrow> host \<Rightarrow> nat \<Rightarrow> utf16 \<Rightarrow> utf16 \<Rightarrow> int option \<Rightarrow> effect list" where
  \<comment> \<open>the handler of \<open>close\<close>; \<open>n\<close> is \<open>picks.length\<close>, \<open>out\<close> and \<open>err\<close> the text gathered so far\<close>
  "on_close mode h n out err code =
     (if code \<noteq> Some 0 then [ShowErrorMessage (CLIFailed code out err)]
      else
        (let result = trim_text out in
         if mode = Clipboard then
           [ClipboardWriteText result, ShowInformationMessage (CombinedToClipboard n)]
         else
           (let action = onTempOpen (cfg h) in
            (if action = Some ''openAndReveal'' \<or> action = Some ''openOnly''
             then [ShowTextDocument result] else []) @
            (if action = Some ''openAndReveal'' \<or> action = Some ''revealOnly''
             then [RevealFileInOS result] else []) @
            (if action = Some ''copyPath'' then
               [ClipboardWriteText result, ShowInformationMessage TempPathCopied]
             else if action = Some ''copyAsFile'' then
               (if copyFileToClipboard h result then
                  [CopyFileToClipboard result, ShowInformationMessage TempCopiedAsAttachment]
                else
                  [CopyFileToClipboard result, ShowWarningMessage CopyAsFileFailed,
                   ClipboardWriteText result])
             else if action = Some ''none'' then
               [ShowInformationMessage (TempFileCreated result)]
             else [ShowInformationMessage (CreatedTempFile result)]))))"

fun listen :: "mode \<Rightarrow> host \<Rightarrow> nat \<Rightarrow> utf16 \<Rightarrow> utf16 \<Rightarrow> child_event list \<Rightarrow> effect list" where
  \<comment> \<open>the four handlers registered on the child, run over the events it emits; \<open>out\<close> and
      \<open>err\<close> are the variables the data handlers append to, each chunk decoded by its own
      \<open>d.toString()\<close>\<close>
  "listen mode h n out err [] = []"
| "listen mode h n out err (ErrorEvent m # es) =
     ShowErrorMessage (FailedToStartCLI m) # listen mode h n out err es"
| "listen mode h n out err (StdoutData d # es) =
     listen mode h n (out @ Buffer_toString h d) err es"
| "listen mode h n out err (StderrData d # es) =
     listen mode h n out (err @ Buffer_toString h d) es"
| "listen mode h n out err (CloseEvent code # es) =
     on_close mode h n out err code @ listen mode h n out err es"

definition picks_of :: "Uri option \<Rightarrow> Uri list option \<Rightarrow> Uri list" where
  \<comment> \<open>\<open>Array.isArray(uris) && uris.length ? uris : (uri ? [uri] : [])\<close>; \<open>uris = None\<close> is an
      argument that is not an array\<close>
  "picks_of uri uris =
     (case uris of
        Some us \<Rightarrow> if us \<noteq> [] then us else (case uri of Some u \<Rightarrow> [u] | None \<Rightarrow> [])
      | None \<Rightarrow> (case uri of Some u \<Rightarrow> [u] | None \<Rightarrow> []))"

definition run_args :: "mode \<Rightarrow> host \<Rightarrow> string list" where
  \<comment> \<open>the array \<open>args\<close> of \<open>run\<close>; its fifth pair, \<open>--skip-binary\<close>, is commented out in the
      source\<close>
  "run_args mode h =
     [ ''--mode'', mode_str mode,
       ''--header-format'', headerFormat (cfg h),
       ''--separator'', separator (cfg h),
       ''--max-kb'', String_number (maxFileSizeKB (cfg h)) ]"

definition run :: "mode \<Rightarrow> host \<Rightarrow> Uri option \<Rightarrow> Uri list option \<Rightarrow> child_event list \<Rightarrow> effect list" where
  \<comment> \<open>the effects of \<open>run(mode, context, uri, uris)\<close> in their order, when the spawned child
      emits the events \<open>child\<close>; the \<open>catch\<close> branch is taken when \<open>spawn\<close> throws\<close>
  "run mode h uri uris child =
     (let picks = picks_of uri uris in
      if picks = [] then [ShowWarningMessage NoFilesSelected]
      else
        (let request = \<lparr>paths = map fsPath picks, workspace_root = workspaceFolder h\<rparr>;
             args = run_args mode h;
             binaryPath = pickBinary h
         in case spawn_throws h binaryPath args of
              Some m \<Rightarrow> [ShowErrorMessage (ExtensionError m)]
            | None \<Rightarrow>
                [Spawn binaryPath args, StdinWrite request, StdinEnd]
                @ listen mode h (length picks) [] [] child))"

definition tgc_copy :: "host \<Rightarrow> Uri option \<Rightarrow> Uri list option \<Rightarrow> child_event list \<Rightarrow> effect list" where
  \<comment> \<open>the command \<open>tgc.copy\<close> registered by \<open>activate\<close>\<close>
  "tgc_copy h uri uris child = run Clipboard h uri uris child"

definition tgc_temp :: "host \<Rightarrow> Uri option \<Rightarrow> Uri list option \<Rightarrow> child_event list \<Rightarrow> effect list" where
  \<comment> \<open>the command \<open>tgc.temp\<close> registered by \<open>activate\<close>\<close>
  "tgc_temp h uri uris child = run Temp h uri uris child"





fun is_Spawn :: "effect \<Rightarrow> bool" where
  "is_Spawn (Spawn b a) = True"
| "is_Spawn e = False"

fun spawned :: "effect list \<Rightarrow> (string \<times> string list) list" where
  \<comment> \<open>the engine processes a trace of the VS Code extension spawns: executable and arguments\<close>
  "spawned [] = []"
| "spawned (Spawn b args # es) = (b, args) # spawned es"
| "spawned (e # es) = spawned es"

fun written_payloads :: "effect list \<Rightarrow> payload list" where
  \<comment> \<open>the request blobs a trace sends to a child's input\<close>
  "written_payloads [] = []"
| "written_payloads (StdinWrite p # es) = p # written_payloads es"
| "written_payloads (e # es) = written_payloads es"







definition posix_host :: host where
  \<comment> \<open>a Linux host with no setting changed from the defaults the README lists, an empty
      file system and no workspace folder\<close>
  "posix_host =
     \<lparr> platform = ''linux'', arch = ''x64'', homedir = ''/home/u'', TGC_CORE_BIN = None,
       workspaceFolder = None, extensionPath = ''/repo/vscode-ext'',
       existsSync = (\<lambda>p. False),
       path_join = posix_join, path_resolve = posix_resolve ''/'',
       path_basename = posix_basename,
       spawn_throws = (\<lambda>b args. None),
       Buffer_toString = utf8_toString,
       copyFileToClipboard = (\<lambda>p. False),
       cfg = \<lparr> headerFormat = ''File ${index}: ${relpath}'', separator = [CHR 0x5C, CHR ''n'', CHR 0x5C, CHR ''n''],
               maxFileSizeKB = 1024, skipBinary = True,
               onTempOpen = Some ''copyAsFile'', coreBinPath = None \<rparr> \<rparr>"


definition usable :: "host \<Rightarrow> string \<Rightarrow> bool" where
  \<comment> \<open>the two tests of the loop of \<open>pickBinary\<close>: a name that is its own basename is taken
      as it is, any other candidate must exist\<close>
  "usable h c = (path_basename h c = c \<or> existsSync h c)"

definition pickBinary_claimed :: "host \<Rightarrow> string" where
  \<comment> \<open>the selection in the specification's words: the first candidate that exists on the
      file system, the bare executable name when none exists\<close>
  "pickBinary_claimed h =
     (case find (existsSync h) (candidates h) of
        Some c \<Rightarrow> c
      | None \<Rightarrow> exe_name h)"

definition bare_cfg_host :: host where
  \<comment> \<open>\<open>tgc.coreBinPath\<close> is a bare name that does not exist, \<open>TGC_CORE_BIN\<close> names a file
      that does\<close>
  "bare_cfg_host =
     posix_host \<lparr> TGC_CORE_BIN := Some ''/opt/tgc'',
                  existsSync := (\<lambda>p. p = ''/opt/tgc''),
                  cfg := (cfg posix_host) \<lparr> coreBinPath := Some ''mytgc'' \<rparr> \<rparr>"

definition env_host :: host where
  \<comment> \<open>\<open>tgc.coreBinPath\<close> names a missing file, \<open>TGC_CORE_BIN\<close> a file that exists\<close>
  "env_host =
     posix_host \<lparr> TGC_CORE_BIN := Some ''/opt/tgc'',
                  existsSync := (\<lambda>p. p = ''/opt/tgc''),
                  cfg := (cfg posix_host) \<lparr> coreBinPath := Some ''/opt/missing/tgc'' \<rparr> \<rparr>"

fun options_of :: "string list \<Rightarrow> (string \<times> string) list" where
  \<comment> \<open>an argument list read as flags, each followed by its value\<close>
  "options_of (flag # v # rest) = (flag, v) # options_of rest"
| "options_of rest = []"

definition String_boolean :: "bool \<Rightarrow> string" where
  \<comment> \<open>\<open>String(b)\<close>\<close>
  "String_boolean b = (if b then ''true'' else ''false'')"

definition run_args_claimed :: "mode \<Rightarrow> host \<Rightarrow> string list" where
  \<comment> \<open>the argument list in the specification's words, the skip-binary setting passed
      beside the other four: the array of \<open>run\<close> with its commented line in force\<close>
  "run_args_claimed mode h =
     [ ''--mode'', mode_str mode,
       ''--header-format'', headerFormat (cfg h),
       ''--separator'', separator (cfg h),
       ''--max-kb'', String_number (maxFileSizeKB (cfg h)),
       ''--skip-binary'', String_boolean (skipBinary (cfg h)) ]"

definition skip_off_host :: host where
  \<comment> \<open>the user has switched \<open>tgc.skipBinary\<close> off\<close>
  "skip_off_host = posix_host \<lparr> cfg := (cfg posix_host) \<lparr> skipBinary := False \<rparr> \<rparr>"


section \<open>The Visual Studio command (\<open>TgcTempCommand.ExecuteAsync\<close>)\<close>

definition dquote :: char where
  "dquote = CHR 0x22"

definition backslash :: char where
  "backslash = CHR 0x5C"

definition is_cs_space :: "char \<Rightarrow> bool" where
  \<comment> \<open>the characters below 256 for which \<open>Char.IsWhiteSpace\<close> holds\<close>
  "is_cs_space c =
     (c \<in> set [CHR 0x09, CHR 0x0A, CHR 0x0B, CHR 0x0C, CHR 0x0D, CHR 0x20, CHR 0x85, CHR 0xA0])"

definition Trim :: "string \<Rightarrow> string" where
  \<comment> \<open>\<open>s.Trim()\<close>\<close>
  "Trim s = rev (dropWhile is_cs_space (rev (dropWhile is_cs_space s)))"

datatype SolutionItemType =
    PhysicalFile
  | PhysicalFolder
  | OtherItemType   \<comment> \<open>every other value of the toolkit's enumeration (project, solution, ...)\<close>

record SolutionItem =
  Type :: SolutionItemType
  FullPath :: string

record ProcessStartInfo =
  FileName :: string
  Arguments :: string
  RedirectStandardInput :: bool
  RedirectStandardOutput :: bool
  RedirectStandardError :: bool
  UseShellExecute :: bool
  CreateNoWindow :: bool

record exited =
  \<comment> \<open>what the command reads from the engine process once it has exited\<close>
  ExitCode :: int
  StandardOutput :: string
  StandardError :: string

record vs_host =
  EnumerateFiles :: "string \<Rightarrow> string list option"
    \<comment> \<open>\<open>Directory.EnumerateFiles(path, "*", SearchOption.AllDirectories)\<close>: every file below
        the directory, at any depth; \<open>None\<close> when it throws\<close>
  Start :: "ProcessStartInfo \<Rightarrow> payload \<Rightarrow> exited option"
    \<comment> \<open>the engine process started from the record and fed the request; \<open>None\<close> when
        \<open>Process.Start\<close> throws\<close>

datatype vs_effect =
    MessageBoxShow string string
  | ProcessStart ProcessStartInfo
  | StandardInputWrite payload      \<comment> \<open>the text \<open>JsonSerializer.Serialize\<close> gives for the object\<close>
  | StandardInputClose
  | MessageBoxShowError string string
  | StatusBarShowMessage string
  | ProcessStartWith string string  \<comment> \<open>\<open>Process.Start(fileName, arguments)\<close>\<close>
  | Thrown                          \<comment> \<open>an exception leaves \<open>ExecuteAsync\<close>\<close>

definition PathToCli :: string where
  "PathToCli = ''C:'' @ [backslash] @ ''Tools'' @ [backslash] @ ''the-great-combinator.exe''"

definition TgcTemp_Arguments :: string where
  \<comment> \<open>the literal assigned to \<open>Arguments\<close>, its escapes read as C\# reads them\<close>
  "TgcTemp_Arguments =
     ''--mode temp --header-format '' @ [dquote] @ ''file ${index}: ${relpath}'' @ [dquote]
     @ '' --separator '' @ [dquote, backslash, CHR ''n'', backslash, CHR ''n'', dquote]
     @ '' --max-kb 1024 --skip-binary true''"

fun collect_paths :: "vs_host \<Rightarrow> SolutionItem list \<Rightarrow> string list \<Rightarrow> string list option" where
  \<comment> \<open>the \<open>foreach\<close> over the selection, \<open>ps\<close> the list \<open>paths\<close> so far; \<open>None\<close> when the
      enumeration of a folder throws\<close>
  "collect_paths w [] ps = Some ps"
| "collect_paths w (item # items) ps =
     (let ps1 = (if Type item = PhysicalFile then ps @ [FullPath item] else ps) in
      if Type item = PhysicalFolder then
        (case EnumerateFiles w (FullPath item) of
           None \<Rightarrow> None
         | Some files \<Rightarrow> collect_paths w items (ps1 @ files))
      else collect_paths w items ps1)"

definition ExecuteAsync :: "vs_host \<Rightarrow> SolutionItem list \<Rightarrow> vs_effect list" where
  \<comment> \<open>the effects of the command on the selection \<open>GetActiveSelectionAsync\<close> returns\<close>
  "ExecuteAsync w selection =
     (case collect_paths w selection [] of
        None \<Rightarrow> [Thrown]
      | Some ps \<Rightarrow>
          if length ps = 0 then [MessageBoxShow ''The Great Combinator'' ''No selection'']
          else
            (let request = \<lparr>paths = ps, workspace_root = Some []\<rparr>;
                 psi = \<lparr> FileName = PathToCli, Arguments = TgcTemp_Arguments,
                         RedirectStandardInput = True, RedirectStandardOutput = True,
                         RedirectStandardError = True,
                         UseShellExecute = False, CreateNoWindow = True \<rparr>
             in case Start w psi request of
                  None \<Rightarrow> [Thrown]
                | Some p \<Rightarrow>
                    [ProcessStart psi, StandardInputWrite request, StandardInputClose]
                    @ (if ExitCode p \<noteq> 0 then
                         [MessageBoxShowError ''The Great Combinator''
                            (if length (StandardError p) > 0 then StandardError p
                             else ''CLI failed'')]
                       else
                         (let tempPath = Trim (StandardOutput p) in
                          [StatusBarShowMessage
                             (''The Great Combinator: Created temp file: '' @ tempPath),
                           ProcessStartWith ''explorer.exe'' (''/select,'' @ tempPath)]))))"

subsection \<open>How the engine process reads the argument string\<close>

fun split_arguments :: "bool \<Rightarrow> bool \<Rightarrow> nat \<Rightarrow> string \<Rightarrow> string \<Rightarrow> string list" where
  \<comment> \<open>The Windows convention by which a started program splits its command line:
      blanks outside double quotes separate arguments, a double quote opens or closes a
      quoted part, \<open>2n\<close> backslashes before a double quote give \<open>n\<close> backslashes,
      \<open>2n+1\<close> give \<open>n\<close> and a literal quote, and backslashes before anything else stand
      for themselves. \<open>inq\<close>: inside quotes; \<open>started\<close>: an argument is being read;
      \<open>nbs\<close>: backslashes read and not yet emitted; \<open>cur\<close>: the argument so far.\<close>
  "split_arguments inq started nbs cur [] =
     (if started \<or> nbs > 0 then [cur @ replicate nbs backslash] else [])"
| "split_arguments inq started nbs cur (c # cs) =
     (if c = backslash then split_arguments inq True (Suc nbs) cur cs
      else if c = dquote then
        (if odd nbs then
           split_arguments inq True 0 (cur @ replicate (nbs div 2) backslash @ [dquote]) cs
         else split_arguments (\<not> inq) True 0 (cur @ replicate (nbs div 2) backslash) cs)
      else if (c = CHR '' '' \<or> c = CHR 0x09) \<and> \<not> inq then
        (if started then (cur @ replicate nbs backslash) # split_arguments False False 0 [] cs
         else split_arguments False False 0 [] cs)
      else split_arguments inq True 0 (cur @ replicate nbs backslash @ [c]) cs)"

definition argv_of :: "string \<Rightarrow> string list" where
  "argv_of arguments = split_arguments False False 0 [] arguments"

fun started_infos :: "vs_effect list \<Rightarrow> ProcessStartInfo list" where
  \<comment> \<open>the engine processes a trace of the Visual Studio command starts\<close>
  "started_infos [] = []"
| "started_infos (ProcessStart psi # es) = psi # started_infos es"
| "started_infos (e # es) = started_infos es"

fun sent_payloads :: "vs_effect list \<Rightarrow> payload list" where
  \<comment> \<open>the requests a trace of the Visual Studio command writes to the engine\<close>
  "sent_payloads [] = []"
| "sent_payloads (StandardInputWrite p # es) = p # sent_payloads es"
| "sent_payloads (e # es) = sent_payloads es"

definition expansion :: "vs_host \<Rightarrow> SolutionItem \<Rightarrow> string list" where
  \<comment> \<open>what one selected item adds to \<open>paths\<close>: a file its path, a folder every file below
      it, anything else nothing\<close>
  "expansion w item =
     (case Type item of
        PhysicalFile \<Rightarrow> [FullPath item]
      | PhysicalFolder \<Rightarrow> (case EnumerateFiles w (FullPath item) of None \<Rightarrow> [] | Some files \<Rightarrow> files)
      | OtherItemType \<Rightarrow> [])"

definition vs_demo_host :: vs_host where
  \<comment> \<open>one folder with a file at its top and one two levels down; the engine succeeds\<close>
  "vs_demo_host =
     \<lparr> EnumerateFiles = (\<lambda>d. if d = ''C:/proj/src'' then Some [''C:/proj/src/a.cs'', ''C:/proj/src/sub/deep/b.cs''] else None),
       Start = (\<lambda>psi request. Some \<lparr> ExitCode = 0, StandardOutput = ''C:/tmp/tgc.txt'' @ [CHR 0x0A], StandardError = [] \<rparr>) \<rparr>"

definition vs_demo_selection :: "SolutionItem list" where
  \<comment> \<open>a file, a project node and a folder, selected in this order\<close>
  "vs_demo_selection =
     [ \<lparr> Type = PhysicalFile, FullPath = ''C:/proj/README.md'' \<rparr>,
       \<lparr> Type = OtherItemType, FullPath = ''C:/proj/proj.csproj'' \<rparr>,
       \<lparr> Type = PhysicalFolder, FullPath = ''C:/proj/src'' \<rparr> ]"

section \<open>The combination engine (\<open>core/\<close>), modelled from the specification\<close>

text \<open>
  The engine's source (\<open>core/src/main.rs\<close>) is not among the files of the repository at
  hand; only its callers and its documentation are. The three components the properties
  below are about, Path Resolver, File Loader and Formatter, are modelled from sections
  3, 4 and 9 of the specification. A path is the list of its components from the root,
  and a file system is a finite tree. How a file's display path is computed is not part
  of any property and is a parameter of the loader.
\<close>

type_synonym path = "string list"

datatype node =
    \<comment> \<open>Modelled from the spec: the file system the missing engine reads, "read-only for
        inputs"\<close>
    FileNode "byte list option"      \<comment> \<open>a regular file and its bytes; \<open>None\<close> when reading it fails\<close>
  | DirNode "(string \<times> node) list"   \<comment> \<open>a directory: its entries in the order it lists them\<close>

fun lookup :: "node \<Rightarrow> path \<Rightarrow> node option" where
  \<comment> \<open>Modelled from the spec: the file-system object a path names, if any (the lookup
      behind "names a regular file", "names a directory", "non-existent")\<close>
  "lookup n [] = Some n"
| "lookup n (c # cs) =
     (case n of
        FileNode b \<Rightarrow> None
      | DirNode entries \<Rightarrow>
          (case map_of entries c of None \<Rightarrow> None | Some m \<Rightarrow> lookup m cs))"

fun files_under :: "path \<Rightarrow> node \<Rightarrow> path list" where
  \<comment> \<open>Modelled from the spec: "recursively enumerate all regular files beneath it (full
      depth, no depth limit, no ignore-file filtering)", in listing order\<close>
  "files_under p (FileNode b) = [p]"
| "files_under p (DirNode entries) =
     concat (map (\<lambda>e. files_under (p @ [fst e]) (snd e)) entries)"

definition expand_entry :: "node \<Rightarrow> path \<Rightarrow> path list" where
  \<comment> \<open>Modelled from the spec: "If it names a regular file, include it directly. If it
      names a directory, recursively enumerate all regular files beneath it.
      Non-existent or inaccessible entries are recorded as SkippedUnreadable, not fatal":
      a missing entry stays in the sequence, and the loader fails to read it\<close>
  "expand_entry root e =
     (case lookup root e of
        Some (DirNode entries) \<Rightarrow> files_under e (DirNode entries)
      | Some (FileNode b) \<Rightarrow> [e]
      | None \<Rightarrow> [e])"

definition push_once :: "path list \<Rightarrow> path \<Rightarrow> path list" where
  \<comment> \<open>Modelled from the spec: "a single append-only ordered sequence"; a file already in
      it "is included only once, at its first-encountered position"\<close>
  "push_once acc p = (if p \<in> set acc then acc else acc @ [p])"

fun push_all :: "path list \<Rightarrow> path list \<Rightarrow> path list" where
  \<comment> \<open>Modelled from the spec: the files of one entry, appended in their order\<close>
  "push_all acc [] = acc"
| "push_all acc (p # ps) = push_all (push_once acc p) ps"

fun resolve_entries :: "node \<Rightarrow> path list \<Rightarrow> path list \<Rightarrow> path list" where
  \<comment> \<open>Modelled from the spec: "for each entry in paths, in input order"\<close>
  "resolve_entries root acc [] = acc"
| "resolve_entries root acc (e # es) =
     resolve_entries root (push_all acc (expand_entry root e)) es"

definition resolve :: "node \<Rightarrow> path list \<Rightarrow> path list" where
  \<comment> \<open>Modelled from the spec: the Path Resolver (section 4.2) of the missing engine, the
      resolved sequence of a request's \<open>paths\<close>\<close>
  "resolve root entries = resolve_entries root [] entries"

definition traversal :: "node \<Rightarrow> path list \<Rightarrow> path list" where
  \<comment> \<open>Modelled from the spec: every encounter of a file in "input-order traversal",
      repetitions included\<close>
  "traversal root entries = concat (map (expand_entry root) entries)"

datatype status =
    \<comment> \<open>Modelled from the spec: "status: one of {Included, SkippedBinary, SkippedTooLarge,
        SkippedUnreadable}"\<close>
    Included | SkippedBinary | SkippedTooLarge | SkippedUnreadable

record ResolvedFile =
  \<comment> \<open>Modelled from the spec: the entity of section 3; \<open>content\<close> is "present only if
      Included"\<close>
  absolute_path :: path
  relative_path :: string
  status :: status
  size_bytes :: nat
  content :: "string option"

record engine_config =
  \<comment> \<open>Modelled from the spec: the flags of section 6 that the three components read\<close>
  header_format :: string
  block_separator :: string
  max_kb :: nat
  skip_binary :: bool

record text_rules =
  \<comment> \<open>Modelled from the spec: what section 4 leaves open and the model takes as given.
      "a bounded prefix" has \<open>sample_bytes\<close> bytes; \<open>valid_text\<close> holds of a sample that has
      no "byte sequence that cannot be interpreted as valid text"; \<open>decode_lossy\<close> decodes
      "on a best-effort basis (invalid sequences replaced)"; \<open>unescape\<close> decodes the
      "escape sequences" of a configuration string "into their literal form"\<close>
  sample_bytes :: nat
  valid_text :: "byte list \<Rightarrow> bool"
  decode_lossy :: "byte list \<Rightarrow> string"
  unescape :: "string \<Rightarrow> string"

definition max_size_bytes :: "engine_config \<Rightarrow> nat" where
  \<comment> \<open>Modelled from the spec: "max_size_bytes (max-kb x 1024)"\<close>
  "max_size_bytes c = max_kb c * 1024"

definition looks_binary :: "text_rules \<Rightarrow> byte list \<Rightarrow> bool" where
  \<comment> \<open>Modelled from the spec: "inspect a bounded prefix of the file's bytes for the
      presence of a NUL byte or a byte sequence that cannot be interpreted as valid text"\<close>
  "looks_binary t bytes =
     (let sample = take (sample_bytes t) bytes
      in 0 \<in> set sample \<or> \<not> valid_text t sample)"

definition classify :: "text_rules \<Rightarrow> engine_config \<Rightarrow> byte list option \<Rightarrow> status \<times> nat \<times> string option" where
  \<comment> \<open>Modelled from the spec: the File Loader (section 4.3) of the missing engine, on what
      reading a file gives: "read up to max_size_bytes plus one probe byte to detect overflow"; "if the
      readable size exceeds the ceiling: status SkippedTooLarge"; binary detection "only
      evaluated when skip-binary policy is enabled"; a failed read "yields
      SkippedUnreadable". The result is status, size and content.\<close>
  "classify t c r =
     (case r of
        None \<Rightarrow> (SkippedUnreadable, 0, None)
      | Some bytes \<Rightarrow>
          (let probe = take (max_size_bytes c + 1) bytes in
           if length probe > max_size_bytes c then (SkippedTooLarge, length probe, None)
           else if skip_binary c \<and> looks_binary t probe then (SkippedBinary, length probe, None)
           else (Included, length probe, Some (decode_lossy t probe))))"

definition read_file :: "node \<Rightarrow> path \<Rightarrow> byte list option" where
  \<comment> \<open>Modelled from the spec: reading a resolved file; "any I/O failure while reading
      (permissions, race where file disappears)" is \<open>None\<close>\<close>
  "read_file root p =
     (case lookup root p of
        Some (FileNode (Some bytes)) \<Rightarrow> Some bytes
      | Some (FileNode None) \<Rightarrow> None
      | Some (DirNode entries) \<Rightarrow> None
      | None \<Rightarrow> None)"

definition load_file :: "text_rules \<Rightarrow> engine_config \<Rightarrow> (path \<Rightarrow> string) \<Rightarrow> node \<Rightarrow> path \<Rightarrow> ResolvedFile" where
  \<comment> \<open>Modelled from the spec: the record the File Loader makes of one resolved file,
      classified on its own ("no file's classification affects any other file's
      classification"); \<open>display\<close> gives the file's relative display path\<close>
  "load_file t c display root p =
     (case classify t c (read_file root p) of
        (st, n, body) \<Rightarrow>
          \<lparr> absolute_path = p, relative_path = display p,
            status = st, size_bytes = n, content = body \<rparr>)"

subsection \<open>Formatter\<close>

record CombinedBlock =
  \<comment> \<open>Modelled from the spec: the entity of section 3\<close>
  index :: nat
  header_text :: string
  body_text :: string

fun render :: "string \<Rightarrow> nat \<Rightarrow> string \<Rightarrow> string" where
  \<comment> \<open>Modelled from the spec: "a small closed-vocabulary token replacer": one pass over
      the template, \<open>${index}\<close> and \<open>${relpath}\<close> replaced, "unrecognized placeholders are
      left verbatim"\<close>
  "render [] i rel = []"
| "render (c # cs) i rel =
     (if startsWith ''${index}'' (c # cs) then string_of_nat i @ render (drop 7 cs) i rel
      else if startsWith ''${relpath}'' (c # cs) then rel @ render (drop 9 cs) i rel
      else c # render cs i rel)"

fun assign :: "string \<Rightarrow> nat \<Rightarrow> ResolvedFile list \<Rightarrow> CombinedBlock list" where
  \<comment> \<open>Modelled from the spec: "assign each a 1-based sequential index counting only
      included files (skipped files do not consume an index)"; \<open>next\<close> is the index the
      next included file gets\<close>
  "assign template next_index [] = []"
| "assign template next_index (f # fs) =
     (if status f = Included then
        \<lparr> index = next_index,
          header_text = render template next_index (relative_path f),
          body_text = (case content f of Some s \<Rightarrow> s | None \<Rightarrow> []) \<rparr>
        # assign template (Suc next_index) fs
      else assign template next_index fs)"

definition block_text :: "CombinedBlock \<Rightarrow> string" where
  \<comment> \<open>Modelled from the spec: "each rendered header is immediately followed by the file's
      decoded text content", on the next line (Scenario A: the header "followed by a
      newline and the file's content")\<close>
  "block_text b = header_text b @ [CHR 0x0A] @ body_text b"

fun join_blocks :: "string \<Rightarrow> string \<Rightarrow> bool \<Rightarrow> CombinedBlock list \<Rightarrow> string" where
  \<comment> \<open>Modelled from the spec: "all per-file blocks (header + content) are concatenated
      using a single literal separator string between blocks"; \<open>out\<close> is the text so far,
      \<open>first\<close> tells that no block has been written yet\<close>
  "join_blocks sep out first [] = out"
| "join_blocks sep out first (b # bs) =
     join_blocks sep (out @ (if first then [] else sep) @ block_text b) False bs"

definition format :: "text_rules \<Rightarrow> engine_config \<Rightarrow> ResolvedFile list \<Rightarrow> string" where
  \<comment> \<open>Modelled from the spec: the Formatter (section 4.4) of the missing engine; separator
      and header template are "decoded into their literal form before use"\<close>
  "format t c files =
     join_blocks (unescape t (block_separator c)) [] True
       (assign (unescape t (header_format c)) 1 files)"

definition block_of :: "string \<Rightarrow> nat \<times> ResolvedFile \<Rightarrow> CombinedBlock" where
  \<comment> \<open>Modelled from the spec: the block of an included file that is given the index paired
      with it ("header_text (rendered template), body_text")\<close>
  "block_of template p =
     \<lparr> index = fst p,
       header_text = render template (fst p) (relative_path (snd p)),
       body_text = (case content (snd p) of Some s \<Rightarrow> s | None \<Rightarrow> []) \<rparr>"

subsection \<open>A small file system\<close>

definition demo_root :: node where
  \<comment> \<open>a workspace \<open>/w\<close>: a two-byte text file, a source directory with a file holding a NUL
      byte and a nested text file, and a file of 1025 bytes\<close>
  "demo_root =
     DirNode [(''w'', DirNode
       [ (''a.txt'', FileNode (Some [104, 105])),
         (''src'', DirNode
            [ (''m.rs'', FileNode (Some [0, 1])),
              (''deep'', DirNode [(''n.rs'', FileNode (Some [120]))]) ]),
         (''big'', FileNode (Some (replicate 1025 97))) ])]"

definition ceiling_root :: node where
  \<comment> \<open>three files around a ceiling of 1024 bytes: one at the ceiling that starts with a
      NUL byte, a text file at the ceiling, a text file one byte above it\<close>
  "ceiling_root =
     DirNode
       [ (''nul.bin'', FileNode (Some (0 # replicate 1023 97))),
         (''full.txt'', FileNode (Some (replicate 1024 97))),
         (''over.txt'', FileNode (Some (replicate 1025 97))) ]"

fun slash_path :: "path \<Rightarrow> string" where
  \<comment> \<open>a display path for the examples: the components joined by forward slashes\<close>
  "slash_path [] = []"
| "slash_path [c] = c"
| "slash_path (c # d # cs) = c @ ''/'' @ slash_path (d # cs)"

definition demo_entries :: "path list" where
  \<comment> \<open>a file, then the directory above it, then a file of that directory\<close>
  "demo_entries = [[''w'', ''src'', ''m.rs''], [''w''], [''w'', ''a.txt'']]"

definition demo_rules :: text_rules where
  \<comment> \<open>text is ASCII, a sample has 8192 bytes, configuration strings have no escapes\<close>
  "demo_rules =
     \<lparr> sample_bytes = 8192,
       valid_text = list_all (\<lambda>b. b < 128),
       decode_lossy = map (\<lambda>b. if b < 128 then char_of (unat b) else CHR ''?''),
       unescape = (\<lambda>s. s) \<rparr>"

definition demo_config :: engine_config where
  \<comment> \<open>a ceiling of one kilobyte, binary files skipped\<close>
  "demo_config =
     \<lparr> header_format = ''File ${index}: ${relpath}'', block_separator = ''---'',
       max_kb = 1, skip_binary = True \<rparr>"

definition resolved_file :: "string \<Rightarrow> status \<Rightarrow> string \<Rightarrow> ResolvedFile" where
  \<comment> \<open>a classified file of the workspace \<open>/w\<close>, for the examples\<close>
  "resolved_file rel st body =
     \<lparr> absolute_path = [''w'', rel], relative_path = rel, status = st,
       size_bytes = length body, content = (if st = Included then Some body else None) \<rparr>"


section \<open>Properties of the VS Code extension\<close>

subsection \<open>Traces of \<open>run\<close>\<close>

lemma written_payloads_append:
  "written_payloads (xs @ ys) = written_payloads xs @ written_payloads ys"
  by (induction xs rule: written_payloads.induct) simp_all

lemma written_payloads_on_close: "written_payloads (on_close mode h n out err code) = []"
  by (simp add: on_close_def Let_def)

lemma written_payloads_listen: "written_payloads (listen mode h n out err es) = []"
  by (induction mode h n out err es rule: listen.induct)
     (simp_all add: written_payloads_append written_payloads_on_close)

lemma written_payloads_run:
  "written_payloads (run mode h uri uris child) =
     (if picks_of uri uris = [] \<or> spawn_throws h (pickBinary h) (run_args mode h) \<noteq> None then []
      else [\<lparr>paths = map fsPath (picks_of uri uris), workspace_root = workspaceFolder h\<rparr>])"
  by (auto simp: run_def Let_def written_payloads_listen split: option.splits)

lemma picks_of_empty: "picks_of None None = []" "picks_of None (Some []) = []"
  by (simp_all add: picks_of_def)

text \<open>
  C9. When \<open>tgc.copy\<close> or \<open>tgc.temp\<close> is invoked with an empty selection (no \<open>uri\<close>, and
  \<open>uris\<close> absent or empty), \<open>run\<close> shows the warning and does nothing else: no process is
  spawned. Whatever the selection, no request written to a child has an empty \<open>paths\<close>
  list.
\<close>

theorem run_empty_selection_warns:
  "(uri = None \<and> (uris = None \<or> uris = Some []) \<longrightarrow>
      tgc_copy h uri uris child = [ShowWarningMessage NoFilesSelected] \<and>
      tgc_temp h uri uris child = [ShowWarningMessage NoFilesSelected] \<and>
      filter is_Spawn (tgc_copy h uri uris child) = [] \<and>
      filter is_Spawn (tgc_temp h uri uris child) = [])
   \<and> (\<forall>p \<in> set (written_payloads (tgc_copy h uri uris child)
                   @ written_payloads (tgc_temp h uri uris child)). paths p \<noteq> [])"
proof (intro conjI impI ballI)
  fix p
  assume "p \<in> set (written_payloads (tgc_copy h uri uris child)
                   @ written_payloads (tgc_temp h uri uris child))"
  then show "paths p \<noteq> []"
    by (auto simp: tgc_copy_def tgc_temp_def written_payloads_run split: if_splits)
qed (auto simp: tgc_copy_def tgc_temp_def run_def picks_of_empty)

theorem run_empty_selection_warns_witness:
  "tgc_copy posix_host None (Some []) [CloseEvent (Some 0)] = [ShowWarningMessage NoFilesSelected] \<and>
   tgc_temp posix_host None None [] = [ShowWarningMessage NoFilesSelected] \<and>
   written_payloads (tgc_copy posix_host (Some (Uri ''/w/a.txt'')) None [CloseEvent (Some 0)])
     = [\<lparr>paths = [''/w/a.txt''], workspace_root = None\<rparr>]"
  using run_empty_selection_warns [of None "Some []" posix_host "[CloseEvent (Some 0)]"]
    run_empty_selection_warns [of None None posix_host "[]"]
    run_empty_selection_warns [of "Some (Uri ''/w/a.txt'')" None posix_host "[CloseEvent (Some 0)]"]
  by (simp add: tgc_copy_def tgc_temp_def written_payloads_run picks_of_def posix_host_def)















subsection \<open>The choice of the executable\<close>

lemma filter_Boolean_nonempty: "c \<in> set (filter_Boolean cs) \<Longrightarrow> c \<noteq> []"
  by (auto simp: filter_Boolean_def split: option.splits if_splits)

lemma pick_loop_find:
  "\<forall>c \<in> set cs. c \<noteq> [] \<Longrightarrow> pick_loop h cs = find (usable h) cs"
  by (induction cs) (auto simp: usable_def pathExists_def)

text \<open>
  C2, as stated, fails: a configured path that is a bare name is returned without being
  looked up on the file system, ahead of a later candidate that exists.
\<close>

theorem pickBinary_bare_name_unchecked:
  "pickBinary bare_cfg_host = ''mytgc''
   \<and> \<not> existsSync bare_cfg_host ''mytgc''
   \<and> candidates bare_cfg_host = [''mytgc'', ''/opt/tgc'', ''the-great-combinator'']
   \<and> existsSync bare_cfg_host ''/opt/tgc''
   \<and> pickBinary_claimed bare_cfg_host = ''/opt/tgc''"
  by code_simp


lemma exe_name_nonempty: "exe_name h \<noteq> []"
  by (simp add: exe_name_def)

lemma filter_Boolean_append: "filter_Boolean (xs @ ys) = filter_Boolean xs @ filter_Boolean ys"
  by (simp add: filter_Boolean_def)

lemma candidates_snoc:
  "candidates h =
     filter_Boolean
       [ or_null (cfgExpanded h),
         (case TGC_CORE_BIN h of None \<Rightarrow> None | Some e \<Rightarrow> or_null e),
         tryDebugBinFromRepo h (exe_name h),
         tryDebugBinFromWorkspace h (exe_name h),
         tryPackagedBin h (exe_name h) ]
     @ [exe_name h]"
  by (simp add: candidates_def strategies_def whichOnPath_def filter_Boolean_def exe_name_nonempty)

lemma candidates_nonempty: "c \<in> set (candidates h) \<Longrightarrow> c \<noteq> []"
  unfolding candidates_def by (rule filter_Boolean_nonempty)

lemma pick_loop_no_bare:
  "\<forall>c \<in> set cs. c \<noteq> [] \<and> path_basename h c \<noteq> c \<Longrightarrow>
   pick_loop h (cs @ [e]) =
     (case find (existsSync h) cs of Some c \<Rightarrow> Some c | None \<Rightarrow> pick_loop h [e])"
  by (induction cs) (auto simp: pathExists_def)

lemma pick_loop_last: "(case pick_loop h [e] of Some c \<Rightarrow> c | None \<Rightarrow> e) = e"
  by simp

text \<open>
  C2, amended. \<open>pickBinary\<close> tries the candidates in the order: configured path
  (\<open>tgc.coreBinPath\<close>, trimmed and expanded), \<open>TGC_CORE_BIN\<close>, the debug build beside the
  extension, the debug build in the workspace, the packaged binary, the bare executable
  name; empty and missing entries are left out. It returns the first candidate that is
  its own basename (such a name is not checked) or exists on the file system, and the
  bare executable name when there is none. When no candidate before the last is a bare
  name, that is the first candidate that exists, or the bare executable name.
\<close>

theorem pickBinary_first_usable:
  "candidates h =
     filter_Boolean
       [ or_null (cfgExpanded h),
         (case TGC_CORE_BIN h of None \<Rightarrow> None | Some e \<Rightarrow> or_null e),
         tryDebugBinFromRepo h (exe_name h),
         tryDebugBinFromWorkspace h (exe_name h),
         tryPackagedBin h (exe_name h),
         Some (exe_name h) ]
   \<and> pickBinary h =
       (case find (usable h) (candidates h) of Some c \<Rightarrow> c | None \<Rightarrow> exe_name h)
   \<and> ((\<forall>c \<in> set (butlast (candidates h)). path_basename h c \<noteq> c) \<longrightarrow>
        pickBinary h =
          (case find (existsSync h) (butlast (candidates h)) of
             Some c \<Rightarrow> c
           | None \<Rightarrow> exe_name h))"
proof (intro conjI impI)
  show "candidates h =
     filter_Boolean
       [ or_null (cfgExpanded h),
         (case TGC_CORE_BIN h of None \<Rightarrow> None | Some e \<Rightarrow> or_null e),
         tryDebugBinFromRepo h (exe_name h),
         tryDebugBinFromWorkspace h (exe_name h),
         tryPackagedBin h (exe_name h),
         Some (exe_name h) ]"
    by (simp add: candidates_def strategies_def whichOnPath_def)
next
  have "pick_loop h (candidates h) = find (usable h) (candidates h)"
    by (rule pick_loop_find) (simp add: candidates_nonempty)
  then show "pickBinary h =
       (case find (usable h) (candidates h) of Some c \<Rightarrow> c | None \<Rightarrow> exe_name h)"
    by (simp add: pickBinary_def)
next
  assume nobare: "\<forall>c \<in> set (butlast (candidates h)). path_basename h c \<noteq> c"
  obtain cs where cs: "candidates h = cs @ [exe_name h]"
    using candidates_snoc by blast
  have ne: "\<forall>c \<in> set cs. c \<noteq> [] \<and> path_basename h c \<noteq> c"
    using nobare candidates_nonempty [of _ h] by (simp add: cs)
  show "pickBinary h =
          (case find (existsSync h) (butlast (candidates h)) of
             Some c \<Rightarrow> c
           | None \<Rightarrow> exe_name h)"
    using pick_loop_no_bare [OF ne, of "exe_name h"]
    by (simp add: pickBinary_def cs pathExists_def split: option.splits)
qed

lemma env_host_candidates:
  "candidates env_host = [''/opt/missing/tgc'', ''/opt/tgc'', ''the-great-combinator'']"
  by code_simp

lemma env_host_basenames:
  "path_basename env_host ''/opt/missing/tgc'' = ''tgc''"
  "path_basename env_host ''/opt/tgc'' = ''tgc''"
  by code_simp+

theorem pickBinary_first_usable_witness:
  "butlast (candidates env_host) = [''/opt/missing/tgc'', ''/opt/tgc'']
   \<and> path_basename env_host ''/opt/missing/tgc'' \<noteq> ''/opt/missing/tgc''
   \<and> path_basename env_host ''/opt/tgc'' \<noteq> ''/opt/tgc''
   \<and> \<not> existsSync env_host ''/opt/missing/tgc''
   \<and> existsSync env_host ''/opt/tgc''
   \<and> pickBinary env_host = ''/opt/tgc''"
proof -
  have nb: "\<forall>c \<in> set (butlast (candidates env_host)). path_basename env_host c \<noteq> c"
    by (simp add: env_host_candidates env_host_basenames)
  have ex: "\<not> existsSync env_host ''/opt/missing/tgc''" "existsSync env_host ''/opt/tgc''"
    by (simp_all add: env_host_def)
  from pickBinary_first_usable [of env_host] nb
  have "pickBinary env_host =
          (case find (existsSync env_host) (butlast (candidates env_host)) of
             Some c \<Rightarrow> c
           | None \<Rightarrow> exe_name env_host)"
    by blast
  then have "pickBinary env_host = ''/opt/tgc''"
    by (simp add: env_host_candidates ex)
  then show ?thesis
    by (simp add: env_host_candidates env_host_basenames ex)
qed

section \<open>Properties of the Visual Studio command\<close>

lemma argv_of_TgcTemp_Arguments:
  "argv_of TgcTemp_Arguments =
     [ ''--mode'', ''temp'',
       ''--header-format'', ''file ${index}: ${relpath}'',
       ''--separator'', [backslash, CHR ''n'', backslash, CHR ''n''],
       ''--max-kb'', ''1024'',
       ''--skip-binary'', ''true'' ]"
  by code_simp

lemma collect_paths_expansion:
  "collect_paths w sel ps = Some qs \<Longrightarrow> qs = ps @ concat (map (expansion w) sel)"
proof (induction sel arbitrary: ps)
  case Nil
  then show ?case by simp
next
  case (Cons item sel)
  show ?case
  proof (cases "Type item")
    case PhysicalFile
    with Cons.prems have "collect_paths w sel (ps @ [FullPath item]) = Some qs" by simp
    from Cons.IH [OF this] PhysicalFile show ?thesis by (simp add: expansion_def)
  next
    case PhysicalFolder
    with Cons.prems obtain files where f: "EnumerateFiles w (FullPath item) = Some files"
      and c: "collect_paths w sel (ps @ files) = Some qs"
      by (auto split: option.splits)
    from Cons.IH [OF c] PhysicalFolder f show ?thesis by (simp add: expansion_def)
  next
    case OtherItemType
    with Cons.prems have "collect_paths w sel ps = Some qs" by simp
    from Cons.IH [OF this] OtherItemType show ?thesis by (simp add: expansion_def)
  qed
qed

lemma started_infos_ExecuteAsync:
  "psi \<in> set (started_infos (ExecuteAsync w sel)) \<Longrightarrow>
   FileName psi = PathToCli \<and> Arguments psi = TgcTemp_Arguments"
  by (auto simp: ExecuteAsync_def Let_def split: option.splits if_splits)

lemma sent_payloads_ExecuteAsync:
  "p \<in> set (sent_payloads (ExecuteAsync w sel)) \<Longrightarrow>
   workspace_root p = Some [] \<and> collect_paths w sel [] = Some (paths p) \<and> paths p \<noteq> []"
  by (auto simp: ExecuteAsync_def Let_def split: option.splits if_splits)

text \<open>
  C10. Every engine process the Visual Studio command starts is the fixed executable
  with the fixed argument string, which the engine reads as: mode \<open>temp\<close>, header format
  \<open>file ${index}: ${relpath}\<close>, separator backslash-n backslash-n, max-kb 1024,
  skip-binary true. The request it is sent lists, in selection order, each selected file
  and, for each selected folder, every file below it at any depth; its
  \<open>workspace_root\<close> is present and is the empty string.
\<close>

theorem TgcTemp_fixed_invocation:
  "(\<forall>psi \<in> set (started_infos (ExecuteAsync w sel)).
      FileName psi = PathToCli \<and>
      argv_of (Arguments psi) =
        [ ''--mode'', ''temp'',
          ''--header-format'', ''file ${index}: ${relpath}'',
          ''--separator'', [backslash, CHR ''n'', backslash, CHR ''n''],
          ''--max-kb'', ''1024'',
          ''--skip-binary'', ''true'' ])
   \<and> (\<forall>p \<in> set (sent_payloads (ExecuteAsync w sel)).
        workspace_root p = Some [] \<and> paths p = concat (map (expansion w) sel))
   \<and> length (sent_payloads (ExecuteAsync w sel)) = length (started_infos (ExecuteAsync w sel))"
proof (intro conjI ballI)
  fix psi assume "psi \<in> set (started_infos (ExecuteAsync w sel))"
  then have "FileName psi = PathToCli" "Arguments psi = TgcTemp_Arguments"
    using started_infos_ExecuteAsync by blast+
  then show "FileName psi = PathToCli"
    "argv_of (Arguments psi) =
        [ ''--mode'', ''temp'',
          ''--header-format'', ''file ${index}: ${relpath}'',
          ''--separator'', [backslash, CHR ''n'', backslash, CHR ''n''],
          ''--max-kb'', ''1024'',
          ''--skip-binary'', ''true'' ]"
    by (simp_all only: argv_of_TgcTemp_Arguments)
next
  fix p assume "p \<in> set (sent_payloads (ExecuteAsync w sel))"
  then have "workspace_root p = Some []" "collect_paths w sel [] = Some (paths p)"
    using sent_payloads_ExecuteAsync by blast+
  then show "workspace_root p = Some []" "paths p = concat (map (expansion w) sel)"
    using collect_paths_expansion [of w sel "[]" "paths p"] by simp_all
next
  show "length (sent_payloads (ExecuteAsync w sel)) = length (started_infos (ExecuteAsync w sel))"
    by (simp add: ExecuteAsync_def Let_def split: option.splits)
qed

lemma vs_demo_trace:
  "started_infos (ExecuteAsync vs_demo_host vs_demo_selection) =
     [\<lparr> FileName = PathToCli, Arguments = TgcTemp_Arguments,
        RedirectStandardInput = True, RedirectStandardOutput = True, RedirectStandardError = True,
        UseShellExecute = False, CreateNoWindow = True \<rparr>]"
  "sent_payloads (ExecuteAsync vs_demo_host vs_demo_selection) =
     [\<lparr> paths = [''C:/proj/README.md'', ''C:/proj/src/a.cs'', ''C:/proj/src/sub/deep/b.cs''],
        workspace_root = Some [] \<rparr>]"
  by (simp_all add: ExecuteAsync_def vs_demo_host_def vs_demo_selection_def Let_def)

theorem TgcTemp_fixed_invocation_witness:
  "started_infos (ExecuteAsync vs_demo_host vs_demo_selection) \<noteq> []
   \<and> map (\<lambda>psi. argv_of (Arguments psi)) (started_infos (ExecuteAsync vs_demo_host vs_demo_selection)) =
       [[ ''--mode'', ''temp'',
          ''--header-format'', ''file ${index}: ${relpath}'',
          ''--separator'', [backslash, CHR ''n'', backslash, CHR ''n''],
          ''--max-kb'', ''1024'',
          ''--skip-binary'', ''true'' ]]
   \<and> map workspace_root (sent_payloads (ExecuteAsync vs_demo_host vs_demo_selection)) = [Some []]
   \<and> map paths (sent_payloads (ExecuteAsync vs_demo_host vs_demo_selection)) =
       [concat (map (expansion vs_demo_host) vs_demo_selection)]
   \<and> concat (map (expansion vs_demo_host) vs_demo_selection) =
       [''C:/proj/README.md'', ''C:/proj/src/a.cs'', ''C:/proj/src/sub/deep/b.cs'']"
  using TgcTemp_fixed_invocation [of vs_demo_host vs_demo_selection]
  by (simp add: vs_demo_trace)

section \<open>The configuration the callers pass\<close>

lemma spawned_append: "spawned (xs @ ys) = spawned xs @ spawned ys"
  by (induction xs rule: spawned.induct) simp_all

lemma spawned_on_close: "spawned (on_close mode h n out err code) = []"
  by (simp add: on_close_def Let_def)

lemma spawned_listen: "spawned (listen mode h n out err es) = []"
  by (induction mode h n out err es rule: listen.induct)
     (simp_all add: spawned_append spawned_on_close)

lemma spawned_run:
  "spawned (run mode h uri uris child) =
     (if picks_of uri uris = [] \<or> spawn_throws h (pickBinary h) (run_args mode h) \<noteq> None then []
      else [(pickBinary h, run_args mode h)])"
  by (auto simp: run_def Let_def spawned_listen split: option.splits)

lemma pickBinary_skip_off_host: "pickBinary skip_off_host = ''the-great-combinator''"
  by code_simp

text \<open>
  C1, as stated, fails: with \<open>tgc.skipBinary\<close> switched off, the arguments \<open>run\<close> gives the
  engine hold no \<open>--skip-binary\<close> at all, where the claim has \<open>--skip-binary false\<close>; and
  the Visual Studio command passes the literal \<open>true\<close>, whatever any setting says.
\<close>

theorem run_omits_skip_binary:
  "\<not> skipBinary (cfg skip_off_host)
   \<and> spawned (run Clipboard skip_off_host (Some (Uri ''/w/a.txt'')) None []) =
       [(''the-great-combinator'',
         [ ''--mode'', ''clipboard'',
           ''--header-format'', ''File ${index}: ${relpath}'',
           ''--separator'', [CHR 0x5C, CHR ''n'', CHR 0x5C, CHR ''n''],
           ''--max-kb'', ''1024'' ])]
   \<and> map_of (options_of (run_args Clipboard skip_off_host)) ''--skip-binary'' = None
   \<and> map_of (options_of (run_args_claimed Clipboard skip_off_host)) ''--skip-binary'' = Some ''false''
   \<and> map_of (options_of (argv_of TgcTemp_Arguments)) ''--skip-binary'' = Some ''true''"
proof -
  have sp: "spawned (run Clipboard skip_off_host (Some (Uri ''/w/a.txt'')) None []) =
       [(pickBinary skip_off_host, run_args Clipboard skip_off_host)]"
    by (simp add: spawned_run picks_of_def skip_off_host_def posix_host_def)
  have ra: "run_args Clipboard skip_off_host =
         [ ''--mode'', ''clipboard'',
           ''--header-format'', ''File ${index}: ${relpath}'',
           ''--separator'', [CHR 0x5C, CHR ''n'', CHR 0x5C, CHR ''n''],
           ''--max-kb'', ''1024'' ]"
    by (simp add: run_args_def skip_off_host_def posix_host_def String_number_def digit_char_def)
  have "spawned (run Clipboard skip_off_host (Some (Uri ''/w/a.txt'')) None []) =
       [(''the-great-combinator'',
         [ ''--mode'', ''clipboard'',
           ''--header-format'', ''File ${index}: ${relpath}'',
           ''--separator'', [CHR 0x5C, CHR ''n'', CHR 0x5C, CHR ''n''],
           ''--max-kb'', ''1024'' ])]"
    by (simp only: sp ra pickBinary_skip_off_host)
  moreover have "map_of (options_of (run_args Clipboard skip_off_host)) ''--skip-binary'' = None"
    by (simp add: run_args_def)
  moreover have "map_of (options_of (run_args_claimed Clipboard skip_off_host)) ''--skip-binary'' = Some ''false''"
    by (simp add: run_args_claimed_def String_boolean_def skip_off_host_def posix_host_def)
  moreover have "map_of (options_of (argv_of TgcTemp_Arguments)) ''--skip-binary'' = Some ''true''"
    by (simp add: argv_of_TgcTemp_Arguments)
  moreover have "\<not> skipBinary (cfg skip_off_host)"
    by (simp add: skip_off_host_def posix_host_def)
  ultimately show ?thesis by blast
qed

text \<open>
  C1, amended. Every engine invocation of either caller passes mode, header format,
  separator and max-kb on the command line. The VS Code command takes the mode from the
  command invoked and the other three from the user's settings; the Visual Studio
  command passes fixed values, and passes skip-binary too, fixed to \<open>true\<close>.
\<close>

theorem callers_pass_configuration:
  "(\<forall>inv \<in> set (spawned (run mode h uri uris child)).
      map (map_of (options_of (snd inv)))
          [''--mode'', ''--header-format'', ''--separator'', ''--max-kb'']
        = [ Some (mode_str mode), Some (headerFormat (cfg h)), Some (separator (cfg h)),
            Some (String_number (maxFileSizeKB (cfg h))) ])
   \<and> (\<forall>psi \<in> set (started_infos (ExecuteAsync w sel)).
        map (map_of (options_of (argv_of (Arguments psi))))
            [''--mode'', ''--header-format'', ''--separator'', ''--max-kb'', ''--skip-binary'']
          = [ Some ''temp'', Some ''file ${index}: ${relpath}'',
              Some [backslash, CHR ''n'', backslash, CHR ''n''], Some ''1024'', Some ''true'' ])"
proof (intro conjI ballI)
  fix inv assume "inv \<in> set (spawned (run mode h uri uris child))"
  then have "snd inv = run_args mode h"
    by (auto simp: spawned_run split: if_splits)
  then show "map (map_of (options_of (snd inv)))
          [''--mode'', ''--header-format'', ''--separator'', ''--max-kb'']
        = [ Some (mode_str mode), Some (headerFormat (cfg h)), Some (separator (cfg h)),
            Some (String_number (maxFileSizeKB (cfg h))) ]"
    by (simp add: run_args_def)
next
  fix psi assume "psi \<in> set (started_infos (ExecuteAsync w sel))"
  then have "Arguments psi = TgcTemp_Arguments"
    using started_infos_ExecuteAsync by blast
  then show "map (map_of (options_of (argv_of (Arguments psi))))
            [''--mode'', ''--header-format'', ''--separator'', ''--max-kb'', ''--skip-binary'']
          = [ Some ''temp'', Some ''file ${index}: ${relpath}'',
              Some [backslash, CHR ''n'', backslash, CHR ''n''], Some ''1024'', Some ''true'' ]"
    by (simp add: argv_of_TgcTemp_Arguments)
qed

theorem callers_pass_configuration_witness:
  "map (\<lambda>inv. map (map_of (options_of (snd inv)))
          [''--mode'', ''--header-format'', ''--separator'', ''--max-kb''])
       (spawned (run Temp skip_off_host None (Some [Uri ''/w/a.txt'', Uri ''/w/src'']) []))
     = [[ Some ''temp'', Some ''File ${index}: ${relpath}'',
          Some [CHR 0x5C, CHR ''n'', CHR 0x5C, CHR ''n''], Some ''1024'' ]]
   \<and> map (\<lambda>psi. map (map_of (options_of (argv_of (Arguments psi))))
            [''--mode'', ''--header-format'', ''--separator'', ''--max-kb'', ''--skip-binary''])
         (started_infos (ExecuteAsync vs_demo_host vs_demo_selection))
     = [[ Some ''temp'', Some ''file ${index}: ${relpath}'',
          Some [backslash, CHR ''n'', backslash, CHR ''n''], Some ''1024'', Some ''true'' ]]"
  using callers_pass_configuration
    [of Temp skip_off_host None "Some [Uri ''/w/a.txt'', Uri ''/w/src'']" "[]" vs_demo_host vs_demo_selection]
  by (simp add: spawned_run picks_of_def vs_demo_trace skip_off_host_def posix_host_def
      String_number_def digit_char_def)

section \<open>Properties of the modelled engine\<close>

subsection \<open>Path Resolver\<close>

lemma count_list_distinct: "distinct xs \<Longrightarrow> x \<in> set xs \<Longrightarrow> count_list xs x = 1"
  by (induction xs) (auto simp: count_list_0_iff)

lemma push_all_append: "push_all acc (xs @ ys) = push_all (push_all acc xs) ys"
  by (induction xs arbitrary: acc) simp_all

lemma set_push_all: "set (push_all acc xs) = set acc \<union> set xs"
  by (induction xs arbitrary: acc) (auto simp: push_once_def)

lemma distinct_push_all: "distinct acc \<Longrightarrow> distinct (push_all acc xs)"
  by (induction xs arbitrary: acc) (simp_all add: push_once_def)

lemma push_all_extends: "\<exists>zs. push_all acc xs = acc @ zs"
proof (induction xs arbitrary: acc)
  case Nil
  show ?case by simp
next
  case (Cons x xs)
  obtain zs where "push_all (push_once acc x) xs = push_once acc x @ zs"
    using Cons.IH by blast
  then show ?case by (auto simp: push_once_def)
qed

lemma resolve_entries_push_all:
  "resolve_entries root acc es = push_all acc (concat (map (expand_entry root) es))"
  by (induction es arbitrary: acc) (simp_all add: push_all_append)

lemma resolve_push_all: "resolve root entries = push_all [] (traversal root entries)"
  by (simp add: resolve_def traversal_def resolve_entries_push_all)

lemma push_all_first_encounter:
  assumes "j < length t" and "t ! j \<notin> set (take j t)"
  shows "\<exists>k < length (push_all [] t).
           push_all [] t ! k = t ! j \<and> set (take k (push_all [] t)) = set (take j t)"
proof -
  define A where "A = push_all [] (take j t)"
  have t: "t = take j t @ (t ! j # drop (Suc j) t)"
    using assms(1) by (simp add: id_take_nth_drop [symmetric])
  have setA: "set A = set (take j t)"
    by (simp add: A_def set_push_all)
  have "push_all [] t = push_all (push_all [] (take j t)) (t ! j # drop (Suc j) t)"
    using push_all_append [of "[]" "take j t" "t ! j # drop (Suc j) t"] t by simp
  also have "\<dots> = push_all (A @ [t ! j]) (drop (Suc j) t)"
    using assms(2) setA by (simp add: A_def push_once_def)
  finally obtain zs where r: "push_all [] t = (A @ [t ! j]) @ zs"
    using push_all_extends [of "A @ [t ! j]" "drop (Suc j) t"] by auto
  have "length A < length (push_all [] t)" by (simp add: r)
  moreover have "push_all [] t ! length A = t ! j" by (simp add: r nth_append)
  moreover have "set (take (length A) (push_all [] t)) = set (take j t)"
    by (simp add: r setA)
  ultimately show ?thesis by blast
qed

text \<open>
  C8. The resolved sequence holds every file met in the input-order traversal exactly
  once, however many entries reach it (a file listed by itself and met again below a
  listed directory, say), and holds it where it was first met: the files before it in
  the resolved sequence are exactly the files met before its first encounter.
\<close>

theorem resolve_first_encounter:
  "distinct (resolve root entries)
   \<and> set (resolve root entries) = set (traversal root entries)
   \<and> (\<forall>f \<in> set (traversal root entries). count_list (resolve root entries) f = 1)
   \<and> (\<forall>j < length (traversal root entries).
        traversal root entries ! j \<notin> set (take j (traversal root entries)) \<longrightarrow>
        (\<exists>k < length (resolve root entries).
           resolve root entries ! k = traversal root entries ! j \<and>
           set (take k (resolve root entries)) = set (take j (traversal root entries))))"
proof (intro conjI ballI allI impI)
  show d: "distinct (resolve root entries)"
    by (simp add: resolve_push_all distinct_push_all)
  show s: "set (resolve root entries) = set (traversal root entries)"
    by (simp add: resolve_push_all set_push_all)
  fix f assume "f \<in> set (traversal root entries)"
  with d s show "count_list (resolve root entries) f = 1"
    by (simp add: count_list_distinct)
next
  fix j assume "j < length (traversal root entries)"
    and "traversal root entries ! j \<notin> set (take j (traversal root entries))"
  then show "\<exists>k < length (resolve root entries).
           resolve root entries ! k = traversal root entries ! j \<and>
           set (take k (resolve root entries)) = set (take j (traversal root entries))"
    unfolding resolve_push_all by (rule push_all_first_encounter)
qed


lemma demo_traversal:
  "traversal demo_root demo_entries =
     [ [''w'', ''src'', ''m.rs''],
       [''w'', ''a.txt''], [''w'', ''src'', ''m.rs''], [''w'', ''src'', ''deep'', ''n.rs''], [''w'', ''big''],
       [''w'', ''a.txt''] ]"
  by (simp add: traversal_def demo_entries_def demo_root_def expand_entry_def)

lemma demo_resolve:
  "resolve demo_root demo_entries =
     [ [''w'', ''src'', ''m.rs''], [''w'', ''a.txt''], [''w'', ''src'', ''deep'', ''n.rs''], [''w'', ''big''] ]"
  by (simp add: resolve_def demo_entries_def demo_root_def expand_entry_def push_once_def)

theorem resolve_first_encounter_witness:
  "[''w'', ''a.txt''] \<in> set (expand_entry demo_root (demo_entries ! 1))
   \<and> [''w'', ''a.txt''] \<in> set (expand_entry demo_root (demo_entries ! 2))
   \<and> count_list (resolve demo_root demo_entries) [''w'', ''a.txt''] = 1
   \<and> (1::nat) < length (traversal demo_root demo_entries)
   \<and> traversal demo_root demo_entries ! 1 = [''w'', ''a.txt'']
   \<and> traversal demo_root demo_entries ! 1 \<notin> set (take 1 (traversal demo_root demo_entries))
   \<and> (\<exists>k < length (resolve demo_root demo_entries).
         resolve demo_root demo_entries ! k = [''w'', ''a.txt''] \<and>
         set (take k (resolve demo_root demo_entries)) = {[''w'', ''src'', ''m.rs'']})"
proof -
  have e: "[''w'', ''a.txt''] \<in> set (expand_entry demo_root (demo_entries ! 1))"
      "[''w'', ''a.txt''] \<in> set (expand_entry demo_root (demo_entries ! 2))"
    by (simp_all add: demo_entries_def demo_root_def expand_entry_def)
  have j: "(1::nat) < length (traversal demo_root demo_entries)"
      "traversal demo_root demo_entries ! 1 = [''w'', ''a.txt'']"
      "traversal demo_root demo_entries ! 1 \<notin> set (take 1 (traversal demo_root demo_entries))"
      "set (take 1 (traversal demo_root demo_entries)) = {[''w'', ''src'', ''m.rs'']}"
    by (simp_all add: demo_traversal)
  have m: "[''w'', ''a.txt''] \<in> set (traversal demo_root demo_entries)"
    by (simp add: demo_traversal)
  from resolve_first_encounter [of demo_root demo_entries] m
  have c: "count_list (resolve demo_root demo_entries) [''w'', ''a.txt''] = 1"
    by blast
  from resolve_first_encounter [of demo_root demo_entries] j(1) j(3)
  have "\<exists>k < length (resolve demo_root demo_entries).
         resolve demo_root demo_entries ! k = traversal demo_root demo_entries ! 1 \<and>
         set (take k (resolve demo_root demo_entries)) = set (take 1 (traversal demo_root demo_entries))"
    by blast
  then have "\<exists>k < length (resolve demo_root demo_entries).
         resolve demo_root demo_entries ! k = [''w'', ''a.txt''] \<and>
         set (take k (resolve demo_root demo_entries)) = {[''w'', ''src'', ''m.rs'']}"
    by (simp only: j(2) j(4))
  with e c j show ?thesis by blast
qed

subsection \<open>File Loader\<close>

lemma assign_skip:
  "status f \<noteq> Included \<Longrightarrow> assign template n (xs @ f # ys) = assign template n (xs @ ys)"
  by (induction xs arbitrary: n) simp_all

lemma format_skip:
  "status f \<noteq> Included \<Longrightarrow> format t c (xs @ f # ys) = format t c (xs @ ys)"
  by (simp add: format_def assign_skip)

lemma classify_TooLarge_iff:
  "fst (classify t c (Some bytes)) = SkippedTooLarge \<longleftrightarrow> length bytes > max_kb c * 1024"
  by (auto simp: classify_def max_size_bytes_def Let_def)

lemma status_load_file: "status (load_file t c display root p) = fst (classify t c (read_file root p))"
  by (simp add: load_file_def split: prod.splits)

lemma ceiling_root_reads:
  "read_file ceiling_root [''nul.bin''] = Some (0 # replicate 1023 97)"
  "read_file ceiling_root [''full.txt''] = Some (replicate 1024 97)"
  "read_file ceiling_root [''over.txt''] = Some (replicate 1025 97)"
  by (simp_all add: read_file_def ceiling_root_def)

text \<open>
  C5, as stated for every file, fails: a file of exactly max-kb x 1024 bytes that holds a
  NUL byte is skipped as binary when the skip-binary policy is on.
\<close>

theorem binary_file_at_ceiling_skipped:
  "read_file ceiling_root [''nul.bin''] = Some (0 # replicate 1023 97)
   \<and> length (0 # replicate 1023 (97 :: byte)) = max_kb demo_config * 1024
   \<and> skip_binary demo_config
   \<and> status (load_file demo_rules demo_config slash_path ceiling_root [''nul.bin'']) = SkippedBinary"
  by (simp add: status_load_file ceiling_root_reads classify_def demo_config_def demo_rules_def
      max_size_bytes_def looks_binary_def Let_def)

text \<open>
  C5, amended. For every readable file and every max-kb setting the size policy is a
  strict threshold on the number of bytes: the status is \<open>SkippedTooLarge\<close> exactly when
  the file has more than max-kb x 1024 bytes. A file of exactly max-kb x 1024 bytes is
  \<open>Included\<close> unless the binary policy skips it; a file of max-kb x 1024 + 1 bytes is
  \<open>SkippedTooLarge\<close>, and its record adds nothing to the combined output, wherever it
  stands in the resolved sequence.
\<close>

theorem size_threshold:
  assumes "read_file root p = Some bytes"
  shows "(status (load_file t c display root p) = SkippedTooLarge \<longleftrightarrow>
            length bytes > max_kb c * 1024)
   \<and> (length bytes = max_kb c * 1024 \<longrightarrow>
        status (load_file t c display root p) =
          (if skip_binary c \<and> looks_binary t bytes then SkippedBinary else Included))
   \<and> (length bytes = max_kb c * 1024 + 1 \<longrightarrow>
        status (load_file t c display root p) = SkippedTooLarge \<and>
        format t c (xs @ load_file t c display root p # ys) = format t c (xs @ ys))"
proof (intro conjI impI)
  show "status (load_file t c display root p) = SkippedTooLarge \<longleftrightarrow>
            length bytes > max_kb c * 1024"
    by (simp add: status_load_file assms classify_TooLarge_iff)
next
  assume "length bytes = max_kb c * 1024"
  then show "status (load_file t c display root p) =
          (if skip_binary c \<and> looks_binary t bytes then SkippedBinary else Included)"
    by (simp add: status_load_file assms classify_def max_size_bytes_def Let_def)
next
  assume "length bytes = max_kb c * 1024 + 1"
  then show big: "status (load_file t c display root p) = SkippedTooLarge"
    by (simp add: status_load_file assms classify_TooLarge_iff)
  then show "format t c (xs @ load_file t c display root p # ys) = format t c (xs @ ys)"
    by (simp add: format_skip)
qed

theorem size_threshold_witness:
  "read_file ceiling_root [''full.txt''] = Some (replicate 1024 97)
   \<and> length (replicate 1024 (97 :: byte)) = max_kb demo_config * 1024
   \<and> status (load_file demo_rules demo_config slash_path ceiling_root [''full.txt'']) = Included
   \<and> read_file ceiling_root [''over.txt''] = Some (replicate 1025 97)
   \<and> length (replicate 1025 (97 :: byte)) = max_kb demo_config * 1024 + 1
   \<and> status (load_file demo_rules demo_config slash_path ceiling_root [''over.txt'']) = SkippedTooLarge
   \<and> format demo_rules demo_config
        ([resolved_file ''a.txt'' Included ''hi'']
         @ load_file demo_rules demo_config slash_path ceiling_root [''over.txt'']
         # [resolved_file ''b.txt'' Included ''yo''])
     = format demo_rules demo_config
        ([resolved_file ''a.txt'' Included ''hi''] @ [resolved_file ''b.txt'' Included ''yo''])"
proof -
  have l: "length (replicate 1024 (97 :: byte)) = max_kb demo_config * 1024"
      "length (replicate 1025 (97 :: byte)) = max_kb demo_config * 1024 + 1"
    by (simp_all add: demo_config_def)
  have nb: "\<not> (skip_binary demo_config \<and> looks_binary demo_rules (replicate 1024 97))"
    by (simp add: looks_binary_def demo_rules_def Let_def list_all_iff)
  from size_threshold [OF ceiling_root_reads(2), of demo_rules demo_config slash_path] l(1) nb
  have a: "status (load_file demo_rules demo_config slash_path ceiling_root [''full.txt'']) = Included"
    by simp
  from size_threshold [OF ceiling_root_reads(3), of demo_rules demo_config slash_path
      "[resolved_file ''a.txt'' Included ''hi'']" "[resolved_file ''b.txt'' Included ''yo'']"] l(2)
  have b: "status (load_file demo_rules demo_config slash_path ceiling_root [''over.txt'']) = SkippedTooLarge
     \<and> format demo_rules demo_config
        ([resolved_file ''a.txt'' Included ''hi'']
         @ load_file demo_rules demo_config slash_path ceiling_root [''over.txt'']
         # [resolved_file ''b.txt'' Included ''yo''])
     = format demo_rules demo_config
        ([resolved_file ''a.txt'' Included ''hi''] @ [resolved_file ''b.txt'' Included ''yo''])"
    by blast
  from l a b ceiling_root_reads show ?thesis by blast
qed

subsection \<open>Formatter\<close>

lemma assign_all_included:
  "\<forall>f \<in> set files. status f = Included \<Longrightarrow>
   assign template n files = map (block_of template) (zip [n ..< n + length files] files)"
proof (induction files arbitrary: n)
  case Nil
  show ?case by simp
next
  case (Cons f files)
  have "[n ..< n + length (f # files)] = n # [Suc n ..< Suc n + length files]"
    by (subst upt_rec) simp
  with Cons show ?case by (simp add: block_of_def)
qed

lemma join_blocks_later:
  "join_blocks sep out False bs = out @ concat (map (\<lambda>b. sep @ block_text b) bs)"
  by (induction bs arbitrary: out) simp_all

lemma join_blocks_first:
  "join_blocks sep [] True bs =
     (case bs of [] \<Rightarrow> [] | b # rest \<Rightarrow> block_text b @ concat (map (\<lambda>b. sep @ block_text b) rest))"
  by (cases bs) (simp_all add: join_blocks_later)

text \<open>
  C4. When every resolved file is \<open>Included\<close>, the formatter makes one block, hence one
  rendered header, per resolved file; the indices of the blocks are 1, 2, ..., N in
  output order and each header is the template rendered with that index and the file's
  relative path; and the combined text is the first block followed by, for every later
  block, the decoded separator and the block: a separator between consecutive blocks,
  none before the first block or after the last.
\<close>

theorem format_all_included:
  assumes "\<forall>f \<in> set files. status f = Included"
  shows "length (assign (unescape t (header_format c)) 1 files) = length files
    \<and> map index (assign (unescape t (header_format c)) 1 files) = [1 ..< Suc (length files)]
    \<and> map header_text (assign (unescape t (header_format c)) 1 files) =
        map (\<lambda>p. render (unescape t (header_format c)) (fst p) (relative_path (snd p)))
            (zip [1 ..< Suc (length files)] files)
    \<and> format t c files =
        (case assign (unescape t (header_format c)) 1 files of
           [] \<Rightarrow> []
         | b # rest \<Rightarrow>
             block_text b @ concat (map (\<lambda>b. unescape t (block_separator c) @ block_text b) rest))"
proof -
  let ?h = "unescape t (header_format c)"
  have a: "assign ?h 1 files = map (block_of ?h) (zip [1 ..< Suc (length files)] files)"
    using assign_all_included [OF assms, of ?h 1] by (simp del: upt_Suc)
  have "length (assign ?h 1 files) = length files"
    unfolding a by (simp del: upt_Suc)
  moreover have "map index (assign ?h 1 files) = [1 ..< Suc (length files)]"
    unfolding a by (simp add: block_of_def comp_def del: upt_Suc)
  moreover have "map header_text (assign ?h 1 files) =
        map (\<lambda>p. render ?h (fst p) (relative_path (snd p))) (zip [1 ..< Suc (length files)] files)"
    unfolding a by (simp add: block_of_def comp_def del: upt_Suc)
  moreover have "format t c files =
        (case assign ?h 1 files of
           [] \<Rightarrow> []
         | b # rest \<Rightarrow>
             block_text b @ concat (map (\<lambda>b. unescape t (block_separator c) @ block_text b) rest))"
    by (simp add: format_def join_blocks_first)
  ultimately show ?thesis by blast
qed

lemma two_files_blocks:
  "assign ''File ${index}: ${relpath}'' 1
     [resolved_file ''a.txt'' Included ''hi'', resolved_file ''b.txt'' Included ''yo''] =
     [ \<lparr> index = 1, header_text = ''File 1: a.txt'', body_text = ''hi'' \<rparr>,
       \<lparr> index = 2, header_text = ''File 2: b.txt'', body_text = ''yo'' \<rparr> ]"
  by (simp add: resolved_file_def digit_char_def)

theorem format_all_included_witness:
  "map status [resolved_file ''a.txt'' Included ''hi'', resolved_file ''b.txt'' Included ''yo'']
     = [Included, Included]
   \<and> map index (assign (unescape demo_rules (header_format demo_config)) 1
        [resolved_file ''a.txt'' Included ''hi'', resolved_file ''b.txt'' Included ''yo'']) = [1, 2]
   \<and> format demo_rules demo_config
        [resolved_file ''a.txt'' Included ''hi'', resolved_file ''b.txt'' Included ''yo''] =
       ''File 1: a.txt'' @ [CHR 0x0A] @ ''hi'' @ ''---'' @ ''File 2: b.txt'' @ [CHR 0x0A] @ ''yo''"
proof -
  let ?files = "[resolved_file ''a.txt'' Included ''hi'', resolved_file ''b.txt'' Included ''yo'']"
  have inc: "\<forall>f \<in> set ?files. status f = Included"
    by (simp add: resolved_file_def)
  have h: "unescape demo_rules (header_format demo_config) = ''File ${index}: ${relpath}''"
      "unescape demo_rules (block_separator demo_config) = ''---''"
    by (simp_all add: demo_rules_def demo_config_def)
  note inst = format_all_included [OF inc, of demo_rules demo_config]
  from inst have "map index (assign (unescape demo_rules (header_format demo_config)) 1 ?files)
      = [1 ..< Suc (length ?files)]"
    by blast
  then have i: "map index (assign (unescape demo_rules (header_format demo_config)) 1 ?files) = [1, 2]"
    by (simp add: upt_rec)
  from inst have "format demo_rules demo_config ?files =
        (case assign (unescape demo_rules (header_format demo_config)) 1 ?files of
           [] \<Rightarrow> []
         | b # rest \<Rightarrow>
             block_text b
             @ concat (map (\<lambda>b. unescape demo_rules (block_separator demo_config) @ block_text b) rest))"
    by blast
  then have f: "format demo_rules demo_config ?files =
       ''File 1: a.txt'' @ [CHR 0x0A] @ ''hi'' @ ''---'' @ ''File 2: b.txt'' @ [CHR 0x0A] @ ''yo''"
    by (simp only: h two_files_blocks) (simp add: block_text_def)
  have "map status ?files = [Included, Included]"
    by (simp add: resolved_file_def)
  with i f show ?thesis by blast
qed

end
